theory Spec2Isabelle
  imports Main "HOL-Library.Extended_Nat"
begin

unbundle bit_operations_syntax

section \<open>Strings\<close>

text \<open>
  Source strings are modelled as \<^typ>\<open>string\<close>: a character is one code unit in the
  range 0..255. The string primitives of the host language that the program calls
  (\<^verbatim>\<open>slice\<close>, \<^verbatim>\<open>toLowerCase\<close>, \<^verbatim>\<open>trim\<close>, \<^verbatim>\<open>trimEnd\<close>, \<^verbatim>\<open>join\<close>,
  \<^verbatim>\<open>split\<close>, \<^verbatim>\<open>lastIndexOf\<close>) are written out with their behaviour on that range.
\<close>

datatype error = TypeError | RangeError

definition slice :: "'a list \<Rightarrow> int \<Rightarrow> int \<Rightarrow> 'a list" where
  "slice s start fin =
     (let n = int (length s);
          from = (if start < 0 then max (n + start) 0 else min start n);
          to = (if fin < 0 then max (n + fin) 0 else min fin n)
      in take (nat (to - from)) (drop (nat from) s))"

definition isUpper :: "char \<Rightarrow> bool" where
  "isUpper c = (let n = (of_char c :: nat)
                in (65 \<le> n \<and> n \<le> 90) \<or> (192 \<le> n \<and> n \<le> 222 \<and> n \<noteq> 215))"

definition lowerChar :: "char \<Rightarrow> char" where
  "lowerChar c = (if isUpper c then char_of ((of_char c :: nat) + 32) else c)"

definition toLowerCase :: "string \<Rightarrow> string" where
  "toLowerCase s = map lowerChar s"

definition isSpace :: "char \<Rightarrow> bool" where
  "isSpace c = ((of_char c :: nat) \<in> {9, 10, 11, 12, 13, 32, 160})"

definition trimStart :: "string \<Rightarrow> string" where
  "trimStart s = dropWhile isSpace s"

definition trimEnd :: "string \<Rightarrow> string" where
  "trimEnd s = rev (dropWhile isSpace (rev s))"

definition trim :: "string \<Rightarrow> string" where
  "trim s = trimEnd (trimStart s)"

definition join :: "string list \<Rightarrow> string" where
  "join parts = concat parts"

fun lastIndexOf :: "'a list \<Rightarrow> 'a \<Rightarrow> int" where
  "lastIndexOf [] x = -1"
| "lastIndexOf (y # ys) x =
     (let r = lastIndexOf ys x
      in if r \<noteq> -1 then r + 1 else if y = x then 0 else -1)"

section \<open>Parser\<close>

subsection \<open>Rule tables\<close>

definition pTag :: "string list" where
  "pTag = [''p'']"

definition descriptionTags :: "string list" where
  "descriptionTags = [''dd'', ''dt'']"

definition explainationTags :: "string list" where
  "explainationTags = [''rp'', ''rt'']"

definition formTags :: "string list" where
  "formTags = [''button'', ''datalist'', ''input'', ''optgroup'', ''option'', ''select'',
     ''textarea'']"

definition tableSectionTags :: "string list" where
  "tableSectionTags = [''thead'', ''tbody'']"

definition implicitCloseTable :: "(string \<times> string list) list" where
  "implicitCloseTable =
    [(''body'', [''head'', ''link'', ''script'']),
     (''hr'', pTag),
     (''header'', pTag), (''footer'', pTag), (''nav'', pTag), (''div'', pTag),
     (''main'', pTag), (''article'', pTag), (''section'', pTag), (''aside'', pTag),
     (''p'', pTag), (''h1'', pTag), (''h2'', pTag), (''h3'', pTag), (''h4'', pTag),
     (''h5'', pTag), (''h6'', pTag),
     (''address'', pTag), (''blockquote'', pTag), (''pre'', pTag), (''details'', pTag),
     (''dl'', pTag), (''dt'', descriptionTags), (''dd'', descriptionTags),
     (''rt'', explainationTags), (''rp'', explainationTags),
     (''form'', pTag), (''button'', formTags), (''datalist'', formTags),
     (''fieldset'', pTag), (''input'', formTags), (''output'', formTags),
     (''optgroup'', [''optgroup'', ''option'']), (''option'', [''option'']),
     (''select'', formTags), (''textarea'', formTags),
     (''table'', pTag), (''tbody'', tableSectionTags), (''tfoot'', tableSectionTags),
     (''th'', [''th'']), (''tr'', [''tr'', ''th'', ''td'']),
     (''td'', [''thead'', ''th'', ''td'']),
     (''ol'', pTag), (''ul'', pTag), (''li'', [''li'']),
     (''figure'', pTag), (''figcaption'', pTag)]"

text \<open>\<^verbatim>\<open>implicitClose.get(name)\<close>; a \<^verbatim>\<open>null\<close> name has no entry.\<close>

definition implicitClose :: "string option \<Rightarrow> string list option" where
  "implicitClose name = (case name of None \<Rightarrow> None | Some t \<Rightarrow> map_of implicitCloseTable t)"

definition emptyElements :: "string list" where
  "emptyElements = [''area'', ''base'', ''basefont'', ''br'', ''col'', ''command'', ''embed'',
     ''frame'', ''hr'', ''img'', ''input'', ''isindex'', ''keygen'', ''link'', ''meta'',
     ''param'', ''source'', ''track'', ''wbr'']"

text \<open>\<^verbatim>\<open>set.has(x)\<close> where \<open>x\<close> may be \<^verbatim>\<open>null\<close> or \<^verbatim>\<open>undefined\<close>.\<close>

definition has :: "string list \<Rightarrow> string option \<Rightarrow> bool" where
  "has s x = (case x of None \<Rightarrow> False | Some t \<Rightarrow> t \<in> set s)"

subsection \<open>State and handler callbacks\<close>

text \<open>
  The parser calls its handler and never reads anything back (the value of
  \<^verbatim>\<open>handler.onEnd\<close> is only passed on), so the handler is modelled by the sequence of
  calls made to it: the field \<open>calls\<close> holds them, oldest first.
\<close>

type_synonym attrs = "(string \<times> string) list"

datatype handler_call =
    OnStartTag "string option" attrs bool
  | OnEndTag bool
  | OnText string
  | OnComment string
  | OnCDATA string
  | OnDeclaration string
  | OnDirective string
  | OnEnd

record parser =
  buffer :: "string option"
  stack :: "string option list"
  p_text :: "string list"
  tagName :: "string option"
  attributeName :: "string option"
  attributeValue :: "string list"
  p_attributes :: attrs
  calls :: "handler_call list"

definition emit :: "handler_call \<Rightarrow> parser \<Rightarrow> parser" where
  "emit c p = p\<lparr>calls := calls p @ [c]\<rparr>"

definition pop :: "parser \<Rightarrow> parser" where
  "pop p = p\<lparr>stack := butlast (stack p)\<rparr>"

text \<open>\<^verbatim>\<open>Parser.onReset\<close>: the state a freshly constructed parser starts from.\<close>

definition Parser_onReset :: parser where
  "Parser_onReset = \<lparr>buffer = None, stack = [], p_text = [], tagName = None,
     attributeName = None, attributeValue = [], p_attributes = [], calls = []\<rparr>"

text \<open>\<^verbatim>\<open>this.buffer.slice(start, end)\<close>; a \<^verbatim>\<open>null\<close> buffer raises.\<close>

definition span :: "parser \<Rightarrow> int \<Rightarrow> int \<Rightarrow> error + string" where
  "span p start fin = (case buffer p of None \<Rightarrow> Inl TypeError | Some b \<Rightarrow> Inr (slice b start fin))"

subsection \<open>Operations\<close>

text \<open>The loop of \<^verbatim>\<open>Parser.onEnd\<close>, then \<^verbatim>\<open>handler.onEnd\<close>.\<close>

function closeAll :: "parser \<Rightarrow> parser" where
  "closeAll p = (if stack p \<noteq> [] then closeAll (pop (emit (OnEndTag False) p)) else p)"
  by pat_completeness auto
termination
  by (relation "measure (\<lambda>p. length (stack p))") (auto simp: pop_def emit_def)

declare closeAll.simps [simp del]

definition Parser_onEnd :: "parser \<Rightarrow> parser" where
  "Parser_onEnd p = emit OnEnd (closeAll p)"

definition onText :: "int \<Rightarrow> int \<Rightarrow> parser \<Rightarrow> error + parser" where
  "onText start fin p =
     (case span p start fin of Inl e \<Rightarrow> Inl e
      | Inr t \<Rightarrow> Inr (p\<lparr>p_text := p_text p @ [t]\<rparr>))"

text \<open>
  The decoder is an external collaborator: a lookup from a reference name to its text,
  \<open>None\<close> when the name is unknown. It is a parameter of the operations that call it.
\<close>

definition onTextEntity :: "(string \<Rightarrow> string option) \<Rightarrow> int \<Rightarrow> int \<Rightarrow> parser \<Rightarrow> error + parser" where
  "onTextEntity decode start fin p =
     (case span p start fin of Inl e \<Rightarrow> Inl e
      | Inr entity \<Rightarrow>
          Inr (p\<lparr>p_text := p_text p @
                 [case decode entity of Some d \<Rightarrow> d | None \<Rightarrow> ''&'' @ entity]\<rparr>))"

definition onTextEnd :: "parser \<Rightarrow> parser" where
  "onTextEnd p = (emit (OnText (trim (join (p_text p)))) p)\<lparr>p_text := []\<rparr>"

definition onStartTagName :: "int \<Rightarrow> int \<Rightarrow> parser \<Rightarrow> error + parser" where
  "onStartTagName start fin p =
     (case span p start fin of Inl e \<Rightarrow> Inl e
      | Inr t \<Rightarrow> Inr (p\<lparr>tagName := Some (toLowerCase t)\<rparr>))"

definition onAttributeName :: "int \<Rightarrow> int \<Rightarrow> parser \<Rightarrow> error + parser" where
  "onAttributeName start fin p =
     (case span p start fin of Inl e \<Rightarrow> Inl e
      | Inr t \<Rightarrow> Inr (p\<lparr>attributeName := Some (toLowerCase t)\<rparr>))"

definition onAttributeValue :: "int \<Rightarrow> int \<Rightarrow> parser \<Rightarrow> error + parser" where
  "onAttributeValue start fin p =
     (case span p start fin of Inl e \<Rightarrow> Inl e
      | Inr t \<Rightarrow> Inr (p\<lparr>attributeValue := attributeValue p @ [t]\<rparr>))"

definition onAttributeEntity :: "(string \<Rightarrow> string option) \<Rightarrow> int \<Rightarrow> int \<Rightarrow> parser \<Rightarrow> error + parser" where
  "onAttributeEntity decode start fin p =
     (case span p start fin of Inl e \<Rightarrow> Inl e
      | Inr entity \<Rightarrow>
          Inr (p\<lparr>attributeValue := attributeValue p @
                 [case decode entity of Some d \<Rightarrow> d | None \<Rightarrow> ''&'' @ entity]\<rparr>))"

text \<open>
  \<^verbatim>\<open>this.attributes[name] = value\<close>: an existing key keeps its place, a new one is
  added last; a \<^verbatim>\<open>null\<close> name is the key \<^verbatim>\<open>"null"\<close>.
\<close>

fun assign :: "string \<Rightarrow> 'v \<Rightarrow> (string \<times> 'v) list \<Rightarrow> (string \<times> 'v) list" where
  "assign k v [] = [(k, v)]"
| "assign k v ((k', v') # kvs) = (if k' = k then (k, v) # kvs else (k', v') # assign k v kvs)"

definition onAttributeEnd :: "parser \<Rightarrow> parser" where
  "onAttributeEnd p =
     p\<lparr>p_attributes := assign (case attributeName p of None \<Rightarrow> ''null'' | Some a \<Rightarrow> a)
                          (join (attributeValue p)) (p_attributes p),
       attributeName := None,
       attributeValue := []\<rparr>"

text \<open>The \<^verbatim>\<open>while (close.has(this.stack.at(-1)))\<close> loop of \<^verbatim>\<open>onStartTagClose\<close>.\<close>

function closeWhile :: "string list \<Rightarrow> parser \<Rightarrow> parser" where
  "closeWhile close p =
     (if stack p \<noteq> [] \<and> has close (last (stack p))
      then closeWhile close (pop (emit (OnEndTag False) p)) else p)"
  by pat_completeness auto
termination
  by (relation "measure (\<lambda>(c, p). length (stack p))") (auto simp: pop_def emit_def)

declare closeWhile.simps [simp del]

definition onStartTagClose :: "parser \<Rightarrow> parser" where
  "onStartTagClose p =
     (let p1 = (case implicitClose (tagName p) of None \<Rightarrow> p | Some close \<Rightarrow> closeWhile close p);
          selfClosing = has emptyElements (tagName p1);
          p2 = emit (OnStartTag (tagName p1) (p_attributes p1) selfClosing) p1;
          p3 = (if \<not> selfClosing then p2\<lparr>stack := stack p2 @ [tagName p2]\<rparr> else p2)
      in p3\<lparr>tagName := None, p_attributes := []\<rparr>)"

text \<open>
  The \<^verbatim>\<open>do { ... } while (distance--)\<close> loop of \<^verbatim>\<open>onEndTagName\<close>. It is entered with
  \<open>0 \<le> distance < stack.length\<close>, so the counter is a natural number; the flag
  \<^verbatim>\<open>!distance\<close> is true in the round that finds the counter at 0, the last one.
\<close>

fun endTagLoop :: "nat \<Rightarrow> parser \<Rightarrow> parser" where
  "endTagLoop 0 p = pop (emit (OnEndTag True) p)"
| "endTagLoop (Suc distance) p = endTagLoop distance (pop (emit (OnEndTag False) p))"

definition onEndTagName :: "int \<Rightarrow> int \<Rightarrow> parser \<Rightarrow> error + parser" where
  "onEndTagName start fin p =
     (case span p start fin of Inl e \<Rightarrow> Inl e
      | Inr name \<Rightarrow>
          if name \<in> set emptyElements then Inr p
          else let distance = int (length (stack p)) - lastIndexOf (stack p) (Some name) - 1
               in if distance = int (length (stack p)) then Inr p
                  else Inr (endTagLoop (nat distance) p))"

definition onComment :: "int \<Rightarrow> int \<Rightarrow> parser \<Rightarrow> error + parser" where
  "onComment start fin p =
     (case span p start fin of Inl e \<Rightarrow> Inl e | Inr t \<Rightarrow> Inr (emit (OnComment (trim t)) p))"

definition onCDATA :: "int \<Rightarrow> int \<Rightarrow> parser \<Rightarrow> error + parser" where
  "onCDATA start fin p =
     (case span p start fin of Inl e \<Rightarrow> Inl e | Inr t \<Rightarrow> Inr (emit (OnCDATA (trim t)) p))"

definition onDeclaration :: "int \<Rightarrow> int \<Rightarrow> parser \<Rightarrow> error + parser" where
  "onDeclaration start fin p =
     (case span p start fin of Inl e \<Rightarrow> Inl e
      | Inr t \<Rightarrow> Inr (emit (OnDeclaration (trimEnd t)) p))"

text \<open>
  The calls the lexer makes to the parser, and the assignment of \<^verbatim>\<open>parser.buffer\<close> made
  by \<^verbatim>\<open>Lexer.write\<close>. \<^verbatim>\<open>Parser\<close> defines no \<^verbatim>\<open>onSelfClosingTag\<close> and no
  \<^verbatim>\<open>onDirective\<close>: the lexer's optional calls \<^verbatim>\<open>parser.onSelfClosingTag?.()\<close> and
  \<^verbatim>\<open>parser.onDirective?.(...)\<close> do nothing. The arguments that \<^verbatim>\<open>onAttributeEnd\<close> and
  \<^verbatim>\<open>onStartTagClose\<close> sometimes receive are not parameters of the parser's methods.
\<close>

datatype quote = SINGLE | DOUBLE | NULLUM

datatype parser_call =
    SetBuffer string
  | P_onText int int
  | P_onTextEntity int int
  | P_onTextEnd
  | P_onStartTagName int int
  | P_onAttributeName int int
  | P_onAttributeValue int int
  | P_onAttributeEntity int int
  | P_onAttributeEnd "quote option"
  | P_onSelfClosingTag
  | P_onStartTagClose "(int \<times> int) option"
  | P_onEndTagName int int
  | P_onComment int int
  | P_onCDATA int int
  | P_onDeclaration int int
  | P_onDirective int int
  | P_onEnd

fun parser_step :: "(string \<Rightarrow> string option) \<Rightarrow> parser_call \<Rightarrow> parser \<Rightarrow> error + parser" where
  "parser_step decode (SetBuffer chunk) p = Inr (p\<lparr>buffer := Some chunk\<rparr>)"
| "parser_step decode (P_onText a b) p = onText a b p"
| "parser_step decode (P_onTextEntity a b) p = onTextEntity decode a b p"
| "parser_step decode P_onTextEnd p = Inr (onTextEnd p)"
| "parser_step decode (P_onStartTagName a b) p = onStartTagName a b p"
| "parser_step decode (P_onAttributeName a b) p = onAttributeName a b p"
| "parser_step decode (P_onAttributeValue a b) p = onAttributeValue a b p"
| "parser_step decode (P_onAttributeEntity a b) p = onAttributeEntity decode a b p"
| "parser_step decode (P_onAttributeEnd q) p = Inr (onAttributeEnd p)"
| "parser_step decode P_onSelfClosingTag p = Inr p"
| "parser_step decode (P_onStartTagClose ab) p = Inr (onStartTagClose p)"
| "parser_step decode (P_onEndTagName a b) p = onEndTagName a b p"
| "parser_step decode (P_onComment a b) p = onComment a b p"
| "parser_step decode (P_onCDATA a b) p = onCDATA a b p"
| "parser_step decode (P_onDeclaration a b) p = onDeclaration a b p"
| "parser_step decode (P_onDirective a b) p = Inr p"
| "parser_step decode P_onEnd p = Inr (Parser_onEnd p)"

fun parser_run :: "(string \<Rightarrow> string option) \<Rightarrow> parser_call list \<Rightarrow> parser \<Rightarrow> error + parser" where
  "parser_run decode [] p = Inr p"
| "parser_run decode (c # cs) p =
     (case parser_step decode c p of Inl e \<Rightarrow> Inl e | Inr p' \<Rightarrow> parser_run decode cs p')"

section \<open>Handler\<close>

subsection \<open>Nodes\<close>

text \<open>
  Nodes are objects that point at each other. They live in a store, a list of nodes in
  order of creation; a reference to a node is its position in the store, and an absent
  reference (\<^verbatim>\<open>undefined\<close>) is \<open>None\<close>. One record carries the fields of both classes:
  a \<^verbatim>\<open>Text\<close> has no \<^verbatim>\<open>name\<close>, \<^verbatim>\<open>attributes\<close>, \<^verbatim>\<open>children\<close> or \<^verbatim>\<open>tail\<close> (they
  stay at \<open>None\<close> and \<open>[]\<close>, which every test the program makes on them treats like
  \<^verbatim>\<open>undefined\<close>), a \<^verbatim>\<open>Tag\<close> has no \<^verbatim>\<open>value\<close>.
\<close>

datatype ntype =
    Element_TAG | Element_DOCUMENT
  | Data_TEXT | Data_COMMENT | Data_CDATA | Data_DOCTYPE | Data_DIRECTIVE

datatype attr_value = Str string | Tokens "string list"

record node =
  n_type :: ntype
  parent :: "nat option"
  n_previous :: "nat option"
  n_next :: "nat option"
  previousSibling :: "nat option"
  nextSibling :: "nat option"
  n_name :: "string option"
  n_attributes :: "(string \<times> attr_value) list"
  children :: "nat list"
  tail :: "nat option"
  n_value :: string

definition newTag :: "string option \<Rightarrow> (string \<times> attr_value) list \<Rightarrow> ntype \<Rightarrow> node" where
  "newTag nm as ty = \<lparr>n_type = ty, parent = None, n_previous = None, n_next = None,
     previousSibling = None, nextSibling = None, n_name = nm, n_attributes = as,
     children = [], tail = None, n_value = []\<rparr>"

definition newText :: "string \<Rightarrow> ntype \<Rightarrow> node" where
  "newText v ty = \<lparr>n_type = ty, parent = None, n_previous = None, n_next = None,
     previousSibling = None, nextSibling = None, n_name = None, n_attributes = [],
     children = [], tail = None, n_value = v\<rparr>"

text \<open>\<^verbatim>\<open>array.at(i)\<close>: a negative index counts from the end.\<close>

definition array_at :: "'a list \<Rightarrow> int \<Rightarrow> 'a option" where
  "array_at xs i = (let j = (if i < 0 then int (length xs) + i else i)
              in if 0 \<le> j \<and> j < int (length xs) then Some (xs ! nat j) else None)"

text \<open>
  \<^verbatim>\<open>Node.link\<close>, on the node \<open>this\<close> of the store. Reading a property of an absent
  parent or previous node raises.
\<close>

definition modify :: "nat \<Rightarrow> (node \<Rightarrow> node) \<Rightarrow> node list \<Rightarrow> node list" where
  "modify i f S = S[i := f (S ! i)]"

definition link :: "nat \<Rightarrow> nat option \<Rightarrow> nat option \<Rightarrow> node list \<Rightarrow> error + node list" where
  "link this par prev S =
     (case par of None \<Rightarrow> Inl TypeError
      | Some p \<Rightarrow>
          let S1 = modify this (\<lambda>n. n\<lparr>parent := Some p\<rparr>) S;
              S2 = modify p (\<lambda>n. n\<lparr>children := children n @ [this]\<rparr>) S1;
              sib = array_at (children (S2 ! p)) (-2);
              S3 = modify this (\<lambda>n. n\<lparr>previousSibling := sib\<rparr>) S2;
              S4 = (case sib of None \<Rightarrow> S3
                    | Some s \<Rightarrow> modify s (\<lambda>n. n\<lparr>nextSibling := Some this\<rparr>) S3)
          in (case prev of None \<Rightarrow> Inl TypeError
              | Some q \<Rightarrow>
                  Inr (modify q (\<lambda>n. n\<lparr>n_next := Some this\<rparr>)
                         (modify this (\<lambda>n. n\<lparr>n_previous := Some q\<rparr>) S4))))"

subsection \<open>Tree builder\<close>

record handler =
  nodes :: "node list"
  document :: nat
  ancestry :: "nat list"
  h_previous :: nat

definition Handler_onReset :: handler where
  "Handler_onReset = \<lparr>nodes = [newTag None [] Element_DOCUMENT], document = 0,
     ancestry = [0], h_previous = 0\<rparr>"

definition Group :: "string list" where
  "Group = [''class'', ''rel'', ''sandbox'', ''accept-charset'', ''headers'', ''sizes'',
     ''accesskey'', ''dropzone'', ''rev'', ''archive'', ''for'']"

text \<open>\<^verbatim>\<open>string.split(/\s+/)\<close>.\<close>

function splitWhitespace :: "string \<Rightarrow> string \<Rightarrow> string list" where
  "splitWhitespace cur [] = [rev cur]"
| "splitWhitespace cur (c # cs) =
     (if isSpace c then rev cur # splitWhitespace [] (dropWhile isSpace cs)
      else splitWhitespace (c # cur) cs)"
  by pat_completeness auto
termination
  by (relation "measure (\<lambda>(cur, s). length s)")
     (auto simp: length_dropWhile_le less_Suc_eq_le)

declare splitWhitespace.simps [simp del]

text \<open>\<^verbatim>\<open>new Set(tokens)\<close> keeps the first occurrence of each token, in order.\<close>

fun newSet :: "string list \<Rightarrow> string list" where
  "newSet [] = []"
| "newSet (x # xs) = x # filter (\<lambda>y. y \<noteq> x) (newSet xs)"

definition groupAttributes :: "attrs \<Rightarrow> (string \<times> attr_value) list" where
  "groupAttributes as =
     map (\<lambda>(k, v). (k, if k \<in> set Group then Tokens (newSet (splitWhitespace [] (trim v)))
                        else Str v)) as"

text \<open>
  The five data callbacks differ in the type of the \<^verbatim>\<open>Text\<close> they create only.
\<close>

definition addText :: "string \<Rightarrow> ntype \<Rightarrow> handler \<Rightarrow> error + handler" where
  "addText v ty h =
     (let text = length (nodes h)
      in case link text (array_at (ancestry h) (-1)) (Some (h_previous h)) (nodes h @ [newText v ty]) of
           Inl e \<Rightarrow> Inl e
         | Inr S \<Rightarrow> Inr (h\<lparr>nodes := S, h_previous := text\<rparr>))"

definition Handler_onStartTag :: "string option \<Rightarrow> attrs \<Rightarrow> bool \<Rightarrow> handler \<Rightarrow> error + handler" where
  "Handler_onStartTag nm as selfClosing h =
     (let tag = length (nodes h)
      in case link tag (array_at (ancestry h) (-1)) (Some (h_previous h))
                (nodes h @ [newTag nm (groupAttributes as) Element_TAG]) of
           Inl e \<Rightarrow> Inl e
         | Inr S \<Rightarrow>
             Inr (h\<lparr>nodes := S,
                    ancestry := (if \<not> selfClosing then ancestry h @ [tag] else ancestry h),
                    h_previous := tag\<rparr>))"

text \<open>
  \<^verbatim>\<open>Handler.onEndTag\<close> takes no parameter: the flag the parser passes is dropped.
  \<^verbatim>\<open>tag.children.at(-1)?.tail ?? tag.children.at(-1)\<close> is \<^verbatim>\<open>undefined\<close> when the tag has
  no child.
\<close>

definition Handler_onEndTag :: "handler \<Rightarrow> error + handler" where
  "Handler_onEndTag h =
     (case array_at (ancestry h) (-1) of None \<Rightarrow> Inl TypeError
      | Some tag \<Rightarrow>
          let S = nodes h;
              t = (case array_at (children (S ! tag)) (-1) of None \<Rightarrow> None
                   | Some c \<Rightarrow> (case tail (S ! c) of Some d \<Rightarrow> Some d | None \<Rightarrow> Some c))
          in Inr (h\<lparr>ancestry := butlast (ancestry h),
                    nodes := modify tag (\<lambda>n. n\<lparr>tail := t\<rparr>) S\<rparr>))"

fun handler_step :: "handler_call \<Rightarrow> handler \<Rightarrow> error + handler" where
  "handler_step (OnStartTag nm as selfClosing) h = Handler_onStartTag nm as selfClosing h"
| "handler_step (OnEndTag explicit) h = Handler_onEndTag h"
| "handler_step (OnText v) h = addText v Data_TEXT h"
| "handler_step (OnComment v) h = addText v Data_COMMENT h"
| "handler_step (OnCDATA v) h = addText v Data_CDATA h"
| "handler_step (OnDeclaration v) h = addText v Data_DOCTYPE h"
| "handler_step (OnDirective v) h = addText v Data_DIRECTIVE h"
| "handler_step OnEnd h = Inr h"

fun handler_run :: "handler_call list \<Rightarrow> handler \<Rightarrow> error + handler" where
  "handler_run [] h = Inr h"
| "handler_run (c # cs) h =
     (case handler_step c h of Inl e \<Rightarrow> Inl e | Inr h' \<Rightarrow> handler_run cs h')"

section \<open>Lexer\<close>

subsection \<open>Characters\<close>

definition orSpace :: "char \<Rightarrow> char" where
  "orSpace c = char_of ((of_char c :: nat) OR 32)"

definition isAlphabetic :: "char \<Rightarrow> bool" where
  "isAlphabetic c = (let k = (of_char (orSpace c) :: nat) in 97 \<le> k \<and> k \<le> 122)"

definition isAlphanumeric :: "char \<Rightarrow> bool" where
  "isAlphanumeric c = (isAlphabetic c \<or> (48 \<le> (of_char c :: nat) \<and> (of_char c :: nat) \<le> 57))"

definition isWhitespace :: "char \<Rightarrow> bool" where
  "isWhitespace c = ((of_char c :: nat) \<le> 32)"

definition Sequence_STYLE :: string where "Sequence_STYLE = ''style''"
definition Sequence_SCRIPT :: string where "Sequence_SCRIPT = ''script''"
definition Sequence_TITLE :: string where "Sequence_TITLE = ''title''"
definition Sequence_TEXT_AREA :: string where "Sequence_TEXT_AREA = ''textarea''"
definition Sequence_XMP :: string where "Sequence_XMP = ''xmp''"
definition Sequence_CDATA :: string where "Sequence_CDATA = ''CDATA''"
definition Sequence_DOCTYPE :: string where "Sequence_DOCTYPE = ''doctype''"

subsection \<open>State\<close>

text \<open>
  The states are the methods \<^verbatim>\<open>this.state\<close> can hold. As for the parser's handler,
  the lexer only calls its parser: \<open>l_calls\<close> holds the calls, oldest first.
\<close>

datatype lstate =
    PAGE | TEXT | BEFORE_TEXT_ENTITY | TEXT_ENTITY | RAW_TEXT | RAW_TEXT_END_OPEN
  | START_TAG_OPEN | START_TAG_NAME | S_SEQUENCE_START | T_SEQUENCE_START
  | START_SEQUENCE_MATCH | END_SEQUENCE_MATCH | EXCLAIMATION | COMMENT_START | COMMENT
  | COMMENT_END_OPEN | COMMENT_END | COMMENT_END_CLOSE | CDATA_START | CDATA
  | CDATA_END_OPEN | CDATA_END | DECLARATION | DASHLESS_COMMENT | DIRECTIVE
  | DIRECTIVE_END | BEFORE_ATTRIBUTE_NAME | ATTRIBUTE_NAME | AFTER_ATTRIBUTE_NAME
  | BEFORE_ATTRIBUTE_VALUE | DQ_ATTRIBUTE_VALUE | SQ_ATTRIBUTE_VALUE | NQ_ATTRIBUTE_VALUE
  | BEFORE_ATTRIBUTE_ENTITY | ATTRIBUTE_ENTITY | SELF_CLOSING_TAG | END_TAG_OPEN
  | END_TAG_NAME | AFTER_END_TAG_NAME

record lexer =
  l_previous :: "lstate option"
  l_next :: "lstate option"
  l_state :: "lstate option"
  index :: int
  sectionStart :: int
  sequence :: "string option"
  sequenceIndex :: nat
  l_calls :: "parser_call list"

definition Lexer_reset :: lexer where
  "Lexer_reset = \<lparr>l_previous = None, l_next = None, l_state = Some PAGE, index = 0,
     sectionStart = 0, sequence = None, sequenceIndex = 0, l_calls = []\<rparr>"

definition call :: "parser_call \<Rightarrow> lexer \<Rightarrow> lexer" where
  "call c L = L\<lparr>l_calls := l_calls L @ [c]\<rparr>"

definition goto :: "lstate \<Rightarrow> lexer \<Rightarrow> lexer" where
  "goto s L = L\<lparr>l_state := Some s\<rparr>"

text \<open>\<^verbatim>\<open>this.state = this.sequence ? this.RAW_TEXT : this.PAGE\<close>.\<close>

definition afterStartTag :: "lexer \<Rightarrow> lexer" where
  "afterStartTag L = goto (if sequence L \<noteq> None then RAW_TEXT else PAGE) L"

text \<open>
  \<^verbatim>\<open>if (this.sectionStart !== fin) { onText(this.sectionStart, fin); onTextEnd() }\<close>.
\<close>

definition flushText :: "int \<Rightarrow> lexer \<Rightarrow> lexer" where
  "flushText fin L =
     (if sectionStart L \<noteq> fin then call P_onTextEnd (call (P_onText (sectionStart L) fin) L)
      else L)"

subsection \<open>States that handle their character themselves\<close>

definition Lexer_PAGE :: "char \<Rightarrow> lexer \<Rightarrow> lexer" where
  "Lexer_PAGE c L =
     (if isWhitespace c then L
      else if c = CHR ''<'' then (goto START_TAG_OPEN L)\<lparr>sectionStart := index L\<rparr>
      else if c = CHR ''&'' then goto BEFORE_TEXT_ENTITY L
      else goto TEXT L)"

definition Lexer_TEXT :: "char \<Rightarrow> lexer \<Rightarrow> lexer" where
  "Lexer_TEXT c L =
     (if c = CHR ''<'' then goto START_TAG_OPEN L
      else if c = CHR ''&'' then goto BEFORE_TEXT_ENTITY L
      else L)"

definition Lexer_RAW_TEXT :: "char \<Rightarrow> lexer \<Rightarrow> lexer" where
  "Lexer_RAW_TEXT c L = (if c = CHR ''<'' then goto RAW_TEXT_END_OPEN L else L)"

definition Lexer_START_TAG_NAME :: "char \<Rightarrow> lexer \<Rightarrow> lexer" where
  "Lexer_START_TAG_NAME c L =
     (if isWhitespace c then
        goto BEFORE_ATTRIBUTE_NAME (call (P_onStartTagName (sectionStart L) (index L)) L)
      else if c = CHR ''>'' then
        (afterStartTag (call (P_onStartTagClose None)
           (call (P_onStartTagName (sectionStart L) (index L)) L)))\<lparr>sectionStart := index L + 1\<rparr>
      else if c = CHR ''/'' then
        goto SELF_CLOSING_TAG (call (P_onStartTagName (sectionStart L) (index L)) L)
      else L)"

definition Lexer_EXCLAIMATION :: "char \<Rightarrow> lexer \<Rightarrow> lexer" where
  "Lexer_EXCLAIMATION c L =
     (if c = CHR ''-'' then goto COMMENT_START L
      else if c = CHR ''['' then
        (goto START_SEQUENCE_MATCH L)\<lparr>l_next := Some CDATA_START, sequence := Some Sequence_CDATA,
           l_previous := Some DASHLESS_COMMENT, sequenceIndex := 1\<rparr>
      else if orSpace c = Sequence_DOCTYPE ! 0 then
        (goto START_SEQUENCE_MATCH L)\<lparr>l_next := Some DECLARATION, sequence := Some Sequence_DOCTYPE,
           l_previous := Some DASHLESS_COMMENT, sequenceIndex := 1\<rparr>
      else goto DASHLESS_COMMENT L)"

definition Lexer_COMMENT_START :: "char \<Rightarrow> lexer \<Rightarrow> lexer" where
  "Lexer_COMMENT_START c L =
     (if c = CHR ''-'' then (goto COMMENT_END L)\<lparr>sectionStart := index L + 1\<rparr>
      else goto DASHLESS_COMMENT L)"

definition Lexer_COMMENT :: "char \<Rightarrow> lexer \<Rightarrow> lexer" where
  "Lexer_COMMENT c L = (if c = CHR ''-'' then goto COMMENT_END_OPEN L else L)"

definition Lexer_COMMENT_END_OPEN :: "char \<Rightarrow> lexer \<Rightarrow> lexer" where
  "Lexer_COMMENT_END_OPEN c L =
     (if c = CHR ''-'' then goto COMMENT_END L else goto COMMENT L)"

definition Lexer_CDATA :: "char \<Rightarrow> lexer \<Rightarrow> lexer" where
  "Lexer_CDATA c L = (if c = CHR '']'' then goto CDATA_END_OPEN L else L)"

definition Lexer_CDATA_END_OPEN :: "char \<Rightarrow> lexer \<Rightarrow> lexer" where
  "Lexer_CDATA_END_OPEN c L =
     (if c = CHR '']'' then goto CDATA_END L else goto CDATA L)"

definition Lexer_DECLARATION :: "char \<Rightarrow> lexer \<Rightarrow> lexer" where
  "Lexer_DECLARATION c L =
     (if c = CHR ''>'' then
        (goto PAGE (call (P_onDeclaration (sectionStart L + 1) (index L)) L))
          \<lparr>sectionStart := index L + 1, sequence := None\<rparr>
      else L)"

definition Lexer_DASHLESS_COMMENT :: "char \<Rightarrow> lexer \<Rightarrow> lexer" where
  "Lexer_DASHLESS_COMMENT c L =
     (if c = CHR ''>'' then
        (goto PAGE (call (P_onComment (sectionStart L + 1) (index L)) L))
          \<lparr>sectionStart := index L + 1\<rparr>
      else L)"

definition Lexer_DIRECTIVE :: "char \<Rightarrow> lexer \<Rightarrow> lexer" where
  "Lexer_DIRECTIVE c L =
     (if c = CHR ''?'' then goto DIRECTIVE_END L
      else if c = CHR ''>'' then
        (goto PAGE (call (P_onDirective (sectionStart L) (index L)) L))
          \<lparr>sectionStart := index L + 1\<rparr>
      else L)"

definition Lexer_DIRECTIVE_END :: "char \<Rightarrow> lexer \<Rightarrow> lexer" where
  "Lexer_DIRECTIVE_END c L =
     (if c = CHR ''>'' then
        (goto PAGE (call (P_onDirective (sectionStart L) (index L - 1)) L))
          \<lparr>sectionStart := index L + 1\<rparr>
      else if c = CHR ''?'' then L
      else goto DIRECTIVE L)"

definition Lexer_BEFORE_ATTRIBUTE_NAME :: "char \<Rightarrow> lexer \<Rightarrow> lexer" where
  "Lexer_BEFORE_ATTRIBUTE_NAME c L =
     (if isWhitespace c then L
      else if c = CHR ''/'' then goto SELF_CLOSING_TAG L
      else if c = CHR ''>'' then
        (afterStartTag (call (P_onStartTagClose None) L))\<lparr>sectionStart := index L + 1\<rparr>
      else (goto ATTRIBUTE_NAME L)\<lparr>sectionStart := index L\<rparr>)"

definition Lexer_ATTRIBUTE_NAME :: "char \<Rightarrow> lexer \<Rightarrow> lexer" where
  "Lexer_ATTRIBUTE_NAME c L =
     (if c = CHR ''='' then
        goto BEFORE_ATTRIBUTE_VALUE (call (P_onAttributeName (sectionStart L) (index L)) L)
      else if isWhitespace c then
        goto AFTER_ATTRIBUTE_NAME (call (P_onAttributeName (sectionStart L) (index L)) L)
      else if c = CHR ''>'' then
        (afterStartTag (call (P_onStartTagClose None) (call (P_onAttributeEnd None)
           (call (P_onAttributeName (sectionStart L) (index L)) L))))
          \<lparr>sectionStart := index L + 1\<rparr>
      else if c = CHR ''/'' then
        goto SELF_CLOSING_TAG (call (P_onAttributeEnd None)
          (call (P_onAttributeName (sectionStart L) (index L)) L))
      else L)"

definition Lexer_AFTER_ATTRIBUTE_NAME :: "char \<Rightarrow> lexer \<Rightarrow> lexer" where
  "Lexer_AFTER_ATTRIBUTE_NAME c L =
     (if isWhitespace c then L
      else if c = CHR ''/'' then goto SELF_CLOSING_TAG (call (P_onAttributeEnd None) L)
      else if c = CHR ''>'' then
        (afterStartTag (call (P_onStartTagClose None) (call (P_onAttributeEnd None) L)))
          \<lparr>sectionStart := index L + 1\<rparr>
      else if c = CHR ''='' then goto BEFORE_ATTRIBUTE_VALUE L
      else (goto ATTRIBUTE_NAME (call (P_onAttributeEnd None) L))\<lparr>sectionStart := index L\<rparr>)"

definition Lexer_BEFORE_ATTRIBUTE_VALUE :: "char \<Rightarrow> lexer \<Rightarrow> lexer" where
  "Lexer_BEFORE_ATTRIBUTE_VALUE c L =
     (if isWhitespace c then L
      else if c = CHR 0x22 then (goto DQ_ATTRIBUTE_VALUE L)\<lparr>sectionStart := index L + 1\<rparr>
      else if c = CHR 0x27 then (goto SQ_ATTRIBUTE_VALUE L)\<lparr>sectionStart := index L + 1\<rparr>
      else if c = CHR ''>'' then
        (afterStartTag (call (P_onStartTagClose None) (call (P_onAttributeEnd None) L)))
          \<lparr>sectionStart := index L + 1\<rparr>
      else (goto NQ_ATTRIBUTE_VALUE L)\<lparr>sectionStart := index L\<rparr>)"

text \<open>
  The three value states share their closing branch:
  \<^verbatim>\<open>if (this.sectionStart !== this.index) { onAttributeValue(...); onAttributeEnd(q) }\<close>.
\<close>

definition flushValue :: "quote option \<Rightarrow> lexer \<Rightarrow> lexer" where
  "flushValue q L =
     (if sectionStart L \<noteq> index L then
        call (P_onAttributeEnd q) (call (P_onAttributeValue (sectionStart L) (index L)) L)
      else L)"

definition Lexer_DQ_ATTRIBUTE_VALUE :: "char \<Rightarrow> lexer \<Rightarrow> lexer" where
  "Lexer_DQ_ATTRIBUTE_VALUE c L =
     (if c = CHR 0x22 then goto BEFORE_ATTRIBUTE_NAME (flushValue (Some DOUBLE) L)
      else if c = CHR ''&'' then (goto BEFORE_ATTRIBUTE_ENTITY L)\<lparr>l_previous := l_state L\<rparr>
      else L)"

definition Lexer_SQ_ATTRIBUTE_VALUE :: "char \<Rightarrow> lexer \<Rightarrow> lexer" where
  "Lexer_SQ_ATTRIBUTE_VALUE c L =
     (if c = CHR 0x27 then goto BEFORE_ATTRIBUTE_NAME (flushValue (Some SINGLE) L)
      else if c = CHR ''&'' then (goto BEFORE_ATTRIBUTE_ENTITY L)\<lparr>l_previous := l_state L\<rparr>
      else L)"

definition Lexer_NQ_ATTRIBUTE_VALUE :: "char \<Rightarrow> lexer \<Rightarrow> lexer" where
  "Lexer_NQ_ATTRIBUTE_VALUE c L =
     (if isWhitespace c then goto BEFORE_ATTRIBUTE_NAME (flushValue (Some NULLUM) L)
      else if c = CHR ''&'' then (goto BEFORE_ATTRIBUTE_ENTITY L)\<lparr>l_previous := l_state L\<rparr>
      else if c = CHR ''>'' then
        (afterStartTag (call (P_onStartTagClose None) (flushValue None L)))
          \<lparr>sectionStart := index L + 1\<rparr>
      else L)"

definition Lexer_SELF_CLOSING_TAG :: "char \<Rightarrow> lexer \<Rightarrow> lexer" where
  "Lexer_SELF_CLOSING_TAG c L =
     (if c = CHR ''>'' then
        (goto PAGE (call (P_onStartTagClose (Some (sectionStart L, index L - 1)))
           (call P_onSelfClosingTag L)))\<lparr>sectionStart := index L + 1\<rparr>
      else if \<not> isWhitespace c then (goto ATTRIBUTE_NAME L)\<lparr>sectionStart := index L\<rparr>
      else L)"

definition Lexer_END_TAG_OPEN :: "char \<Rightarrow> lexer \<Rightarrow> lexer" where
  "Lexer_END_TAG_OPEN c L =
     (if isAlphabetic c then
        (goto END_TAG_NAME (flushText (index L - 2) L))\<lparr>sectionStart := index L\<rparr>
      else if \<not> isWhitespace c then goto TEXT L
      else L)"

definition Lexer_END_TAG_NAME :: "char \<Rightarrow> lexer \<Rightarrow> lexer" where
  "Lexer_END_TAG_NAME c L =
     (if c = CHR ''>'' then
        (goto PAGE (call (P_onEndTagName (sectionStart L) (index L)) L))
          \<lparr>sectionStart := index L + 1\<rparr>
      else if isWhitespace c then
        goto AFTER_END_TAG_NAME (call (P_onEndTagName (sectionStart L) (index L)) L)
      else L)"

definition Lexer_AFTER_END_TAG_NAME :: "char \<Rightarrow> lexer \<Rightarrow> lexer" where
  "Lexer_AFTER_END_TAG_NAME c L =
     (if c = CHR ''>'' then (goto PAGE L)\<lparr>sectionStart := index L + 1\<rparr> else L)"

subsection \<open>States that hand their character on to another state\<close>

text \<open>
  \<^verbatim>\<open>this.state = this.X; this.state(char)\<close> is a call of the state \<open>X\<close> on the same
  character.
\<close>

definition Lexer_BEFORE_TEXT_ENTITY :: "char \<Rightarrow> lexer \<Rightarrow> lexer" where
  "Lexer_BEFORE_TEXT_ENTITY c L =
     (if isAlphanumeric c \<or> c = CHR ''#'' then
        (goto TEXT_ENTITY
           (if sectionStart L \<noteq> index L - 1 then call (P_onText (sectionStart L) (index L - 1)) L
            else L))\<lparr>sectionStart := index L\<rparr>
      else Lexer_TEXT c (goto TEXT L))"

definition Lexer_TEXT_ENTITY :: "char \<Rightarrow> lexer \<Rightarrow> lexer" where
  "Lexer_TEXT_ENTITY c L =
     (if isAlphanumeric c then L
      else let L1 = goto TEXT (call (P_onTextEntity (sectionStart L) (index L)) L)
           in if c = CHR '';'' then L1\<lparr>sectionStart := index L + 1\<rparr>
              else Lexer_TEXT c (L1\<lparr>sectionStart := index L\<rparr>))"

definition Lexer_RAW_TEXT_END_OPEN :: "char \<Rightarrow> lexer \<Rightarrow> lexer" where
  "Lexer_RAW_TEXT_END_OPEN c L =
     (if c = CHR ''/'' then (goto END_SEQUENCE_MATCH L)\<lparr>sequenceIndex := 0\<rparr>
      else Lexer_RAW_TEXT c (goto RAW_TEXT L))"

definition Lexer_START_TAG_OPEN :: "char \<Rightarrow> lexer \<Rightarrow> lexer" where
  "Lexer_START_TAG_OPEN c L =
     (if c = CHR ''/'' then goto END_TAG_OPEN L
      else if isAlphabetic c then
        (let L1 =
           (if c = Sequence_SCRIPT ! 0 then
              (goto S_SEQUENCE_START L)\<lparr>l_previous := Some START_TAG_NAME,
                 l_next := Some START_TAG_NAME\<rparr>
            else if c = Sequence_TEXT_AREA ! 0 then
              (goto T_SEQUENCE_START L)\<lparr>l_previous := Some START_TAG_NAME,
                 l_next := Some START_TAG_NAME\<rparr>
            else if c = Sequence_XMP ! 0 then
              (goto START_SEQUENCE_MATCH L)\<lparr>sequence := Some Sequence_XMP, sequenceIndex := 1,
                 l_previous := Some START_TAG_NAME, l_next := Some START_TAG_NAME\<rparr>
            else goto START_TAG_NAME L)
         in (flushText (index L - 1) L1)\<lparr>sectionStart := index L\<rparr>)
      else if c = CHR ''!'' then
        (flushText (index L - 1) (goto EXCLAIMATION L))\<lparr>sectionStart := index L\<rparr>
      else if c = CHR ''?'' then
        (flushText (index L - 1) (goto DIRECTIVE L))\<lparr>sectionStart := index L\<rparr>
      else Lexer_TEXT c (goto TEXT L))"

text \<open>
  \<^verbatim>\<open>char |= Character.SPACE\<close> comes first in the next two states: the character handed on
  to \<^verbatim>\<open>START_TAG_NAME\<close> is the changed one.
\<close>

definition Lexer_S_SEQUENCE_START :: "char \<Rightarrow> lexer \<Rightarrow> lexer" where
  "Lexer_S_SEQUENCE_START c0 L =
     (let c = orSpace c0
      in if c = Sequence_SCRIPT ! 1 then
           (goto START_SEQUENCE_MATCH L)\<lparr>sequence := Some Sequence_SCRIPT, sequenceIndex := 2\<rparr>
         else if c = Sequence_STYLE ! 1 then
           (goto START_SEQUENCE_MATCH L)\<lparr>sequence := Some Sequence_STYLE, sequenceIndex := 2\<rparr>
         else Lexer_START_TAG_NAME c (goto START_TAG_NAME L))"

definition Lexer_T_SEQUENCE_START :: "char \<Rightarrow> lexer \<Rightarrow> lexer" where
  "Lexer_T_SEQUENCE_START c0 L =
     (let c = orSpace c0
      in if c = Sequence_TEXT_AREA ! 1 then
           (goto START_SEQUENCE_MATCH L)\<lparr>sequence := Some Sequence_TEXT_AREA, sequenceIndex := 2\<rparr>
         else if c = Sequence_TITLE ! 1 then
           (goto START_SEQUENCE_MATCH L)\<lparr>sequence := Some Sequence_TITLE, sequenceIndex := 2\<rparr>
         else Lexer_START_TAG_NAME c (goto START_TAG_NAME L))"

text \<open>
  \<^verbatim>\<open>this.sequence[this.sequenceIndex]\<close> raises when the sequence is \<^verbatim>\<open>null\<close> and is
  \<^verbatim>\<open>undefined\<close>, equal to no character, past the end of the sequence.
\<close>

definition mismatch :: "char \<Rightarrow> string \<Rightarrow> nat \<Rightarrow> bool" where
  "mismatch c s i = (if i < length s then orSpace c \<noteq> s ! i else True)"

definition Lexer_END_SEQUENCE_MATCH :: "char \<Rightarrow> lexer \<Rightarrow> error + lexer" where
  "Lexer_END_SEQUENCE_MATCH c L =
     (case sequence L of None \<Rightarrow> Inl TypeError
      | Some s \<Rightarrow>
          if mismatch c s (sequenceIndex L) then Inr (Lexer_RAW_TEXT c (goto RAW_TEXT L))
          else let L1 = L\<lparr>sequenceIndex := sequenceIndex L + 1\<rparr>
               in if sequenceIndex L1 = length s then
                    Inr ((goto END_TAG_NAME (flushText (index L - int (length s) - 1) L1))
                           \<lparr>sectionStart := index L - int (length s) + 1, sequence := None\<rparr>)
                  else Inr L1)"

definition Lexer_COMMENT_END :: "char \<Rightarrow> lexer \<Rightarrow> lexer" where
  "Lexer_COMMENT_END c L =
     (if c = CHR ''>'' then
        (goto PAGE (call (P_onComment (sectionStart L) (index L - 2)) L))
          \<lparr>sectionStart := index L + 1\<rparr>
      else if c = CHR ''!'' then goto COMMENT_END_CLOSE L
      else Lexer_COMMENT_END_OPEN c (goto COMMENT_END_OPEN L))"

definition Lexer_COMMENT_END_CLOSE :: "char \<Rightarrow> lexer \<Rightarrow> lexer" where
  "Lexer_COMMENT_END_CLOSE c L =
     (if c = CHR ''>'' then
        (goto PAGE (call (P_onComment (sectionStart L) (index L - 3)) L))
          \<lparr>sectionStart := index L + 1\<rparr>
      else Lexer_COMMENT c (goto COMMENT L))"

definition Lexer_CDATA_START :: "char \<Rightarrow> lexer \<Rightarrow> lexer" where
  "Lexer_CDATA_START c L =
     (if c = CHR ''['' then (goto CDATA L)\<lparr>sectionStart := index L + 1\<rparr>
      else Lexer_DASHLESS_COMMENT c (goto DASHLESS_COMMENT L))"

definition Lexer_CDATA_END :: "char \<Rightarrow> lexer \<Rightarrow> lexer" where
  "Lexer_CDATA_END c L =
     (if c = CHR ''>'' then
        (goto PAGE (call (P_onCDATA (sectionStart L) (index L - 2)) L))
          \<lparr>sectionStart := index L + 1, sequence := None\<rparr>
      else Lexer_CDATA_END_OPEN c (goto CDATA_END_OPEN L))"

subsection \<open>States that return to a remembered state\<close>

text \<open>
  \<^verbatim>\<open>this.state = this.previous; this.state(char)\<close> calls whatever state was remembered,
  given here as the function \<open>again\<close>; a \<^verbatim>\<open>null\<close> state is not callable.
\<close>

definition Lexer_START_SEQUENCE_MATCH ::
    "(char \<Rightarrow> lexer \<Rightarrow> error + lexer) \<Rightarrow> char \<Rightarrow> lexer \<Rightarrow> error + lexer" where
  "Lexer_START_SEQUENCE_MATCH again c L =
     (case sequence L of None \<Rightarrow> Inl TypeError
      | Some s \<Rightarrow>
          if mismatch c s (sequenceIndex L) then
            (case again c (L\<lparr>l_state := l_previous L\<rparr>) of Inl e \<Rightarrow> Inl e
             | Inr L1 \<Rightarrow> Inr (L1\<lparr>sequence := None\<rparr>))
          else let L1 = L\<lparr>sequenceIndex := sequenceIndex L + 1\<rparr>
               in if sequenceIndex L1 = length s then Inr (L1\<lparr>l_state := l_next L1\<rparr>)
                  else Inr L1)"

definition Lexer_BEFORE_ATTRIBUTE_ENTITY ::
    "(char \<Rightarrow> lexer \<Rightarrow> error + lexer) \<Rightarrow> char \<Rightarrow> lexer \<Rightarrow> error + lexer" where
  "Lexer_BEFORE_ATTRIBUTE_ENTITY again c L =
     (if isAlphanumeric c \<or> c = CHR ''#'' then
        Inr ((goto ATTRIBUTE_ENTITY
                (if sectionStart L \<noteq> index L - 1
                 then call (P_onAttributeValue (sectionStart L) (index L - 1)) L else L))
               \<lparr>sectionStart := index L\<rparr>)
      else again c (L\<lparr>l_state := l_previous L\<rparr>))"

definition Lexer_ATTRIBUTE_ENTITY ::
    "(char \<Rightarrow> lexer \<Rightarrow> error + lexer) \<Rightarrow> char \<Rightarrow> lexer \<Rightarrow> error + lexer" where
  "Lexer_ATTRIBUTE_ENTITY again c L =
     (if isAlphanumeric c then Inr L
      else let L1 = (call (P_onAttributeEntity (sectionStart L) (index L)) L)
                      \<lparr>l_state := l_previous L\<rparr>
           in if c = CHR '';'' then Inr (L1\<lparr>sectionStart := index L + 1\<rparr>)
              else again c (L1\<lparr>sectionStart := index L\<rparr>))"

subsection \<open>Dispatch and the write loop\<close>

text \<open>
  \<^verbatim>\<open>this.state(char)\<close>. The three states above can call each other without end when
  the remembered state is one of them; the host then raises \<^verbatim>\<open>RangeError\<close> once its call
  stack is full. Along such a chain only \<^verbatim>\<open>this.state\<close> changes, so a chain longer than
  the number of states never ends: the depth allowed here, 40, cuts exactly those.
\<close>

fun dispatch :: "nat \<Rightarrow> char \<Rightarrow> lexer \<Rightarrow> error + lexer" where
  "dispatch 0 c L = Inl RangeError"
| "dispatch (Suc depth) c L =
     (case l_state L of
        None \<Rightarrow> Inl TypeError
      | Some PAGE \<Rightarrow> Inr (Lexer_PAGE c L)
      | Some TEXT \<Rightarrow> Inr (Lexer_TEXT c L)
      | Some BEFORE_TEXT_ENTITY \<Rightarrow> Inr (Lexer_BEFORE_TEXT_ENTITY c L)
      | Some TEXT_ENTITY \<Rightarrow> Inr (Lexer_TEXT_ENTITY c L)
      | Some RAW_TEXT \<Rightarrow> Inr (Lexer_RAW_TEXT c L)
      | Some RAW_TEXT_END_OPEN \<Rightarrow> Inr (Lexer_RAW_TEXT_END_OPEN c L)
      | Some START_TAG_OPEN \<Rightarrow> Inr (Lexer_START_TAG_OPEN c L)
      | Some START_TAG_NAME \<Rightarrow> Inr (Lexer_START_TAG_NAME c L)
      | Some S_SEQUENCE_START \<Rightarrow> Inr (Lexer_S_SEQUENCE_START c L)
      | Some T_SEQUENCE_START \<Rightarrow> Inr (Lexer_T_SEQUENCE_START c L)
      | Some START_SEQUENCE_MATCH \<Rightarrow> Lexer_START_SEQUENCE_MATCH (dispatch depth) c L
      | Some END_SEQUENCE_MATCH \<Rightarrow> Lexer_END_SEQUENCE_MATCH c L
      | Some EXCLAIMATION \<Rightarrow> Inr (Lexer_EXCLAIMATION c L)
      | Some COMMENT_START \<Rightarrow> Inr (Lexer_COMMENT_START c L)
      | Some COMMENT \<Rightarrow> Inr (Lexer_COMMENT c L)
      | Some COMMENT_END_OPEN \<Rightarrow> Inr (Lexer_COMMENT_END_OPEN c L)
      | Some COMMENT_END \<Rightarrow> Inr (Lexer_COMMENT_END c L)
      | Some COMMENT_END_CLOSE \<Rightarrow> Inr (Lexer_COMMENT_END_CLOSE c L)
      | Some CDATA_START \<Rightarrow> Inr (Lexer_CDATA_START c L)
      | Some CDATA \<Rightarrow> Inr (Lexer_CDATA c L)
      | Some CDATA_END_OPEN \<Rightarrow> Inr (Lexer_CDATA_END_OPEN c L)
      | Some CDATA_END \<Rightarrow> Inr (Lexer_CDATA_END c L)
      | Some DECLARATION \<Rightarrow> Inr (Lexer_DECLARATION c L)
      | Some DASHLESS_COMMENT \<Rightarrow> Inr (Lexer_DASHLESS_COMMENT c L)
      | Some DIRECTIVE \<Rightarrow> Inr (Lexer_DIRECTIVE c L)
      | Some DIRECTIVE_END \<Rightarrow> Inr (Lexer_DIRECTIVE_END c L)
      | Some BEFORE_ATTRIBUTE_NAME \<Rightarrow> Inr (Lexer_BEFORE_ATTRIBUTE_NAME c L)
      | Some ATTRIBUTE_NAME \<Rightarrow> Inr (Lexer_ATTRIBUTE_NAME c L)
      | Some AFTER_ATTRIBUTE_NAME \<Rightarrow> Inr (Lexer_AFTER_ATTRIBUTE_NAME c L)
      | Some BEFORE_ATTRIBUTE_VALUE \<Rightarrow> Inr (Lexer_BEFORE_ATTRIBUTE_VALUE c L)
      | Some DQ_ATTRIBUTE_VALUE \<Rightarrow> Inr (Lexer_DQ_ATTRIBUTE_VALUE c L)
      | Some SQ_ATTRIBUTE_VALUE \<Rightarrow> Inr (Lexer_SQ_ATTRIBUTE_VALUE c L)
      | Some NQ_ATTRIBUTE_VALUE \<Rightarrow> Inr (Lexer_NQ_ATTRIBUTE_VALUE c L)
      | Some BEFORE_ATTRIBUTE_ENTITY \<Rightarrow> Lexer_BEFORE_ATTRIBUTE_ENTITY (dispatch depth) c L
      | Some ATTRIBUTE_ENTITY \<Rightarrow> Lexer_ATTRIBUTE_ENTITY (dispatch depth) c L
      | Some SELF_CLOSING_TAG \<Rightarrow> Inr (Lexer_SELF_CLOSING_TAG c L)
      | Some END_TAG_OPEN \<Rightarrow> Inr (Lexer_END_TAG_OPEN c L)
      | Some END_TAG_NAME \<Rightarrow> Inr (Lexer_END_TAG_NAME c L)
      | Some AFTER_END_TAG_NAME \<Rightarrow> Inr (Lexer_AFTER_END_TAG_NAME c L))"

text \<open>
  The loop of \<^verbatim>\<open>Lexer.write\<close> calls the state on the characters at \<open>index\<close>,
  \<open>index + 1\<close>, ... up to the end of the chunk; no state assigns \<open>index\<close>, so the number
  of rounds left is known on entry. (The debugging line \<^verbatim>\<open>console.log\<close> is left out.)
  The loop is a \<^verbatim>\<open>do ... while\<close>: \<open>write\<close> models it for the calls that start inside the
  chunk, as the one made by \<open>Lexer_end\<close> on a fresh lexer does.
\<close>

fun write_loop :: "string \<Rightarrow> nat \<Rightarrow> lexer \<Rightarrow> error + lexer" where
  "write_loop chunk 0 L = Inr L"
| "write_loop chunk (Suc rounds) L =
     (case dispatch 40 (chunk ! nat (index L)) L of Inl e \<Rightarrow> Inl e
      | Inr L' \<Rightarrow> write_loop chunk rounds (L'\<lparr>index := index L' + 1\<rparr>))"

definition Lexer_write :: "string \<Rightarrow> lexer \<Rightarrow> error + lexer" where
  "Lexer_write chunk L =
     write_loop chunk (length chunk - nat (index L)) (call (SetBuffer chunk) L)"

text \<open>\<^verbatim>\<open>Lexer.end(chunk)\<close>: an empty chunk is not written.\<close>

definition Lexer_end :: "string \<Rightarrow> lexer \<Rightarrow> error + lexer" where
  "Lexer_end chunk L =
     (case (if chunk \<noteq> [] then Lexer_write chunk L else Inr L) of Inl e \<Rightarrow> Inl e
      | Inr L' \<Rightarrow> Inr (call P_onEnd L'))"

section \<open>The pipeline\<close>

text \<open>
  A fresh lexer on a fresh parser on a fresh handler, given the whole document in one
  call of \<^verbatim>\<open>end\<close>: the handler's state when the call returns.
\<close>

definition lex :: "string \<Rightarrow> error + parser_call list" where
  "lex chunk = (case Lexer_end chunk Lexer_reset of Inl e \<Rightarrow> Inl e | Inr L \<Rightarrow> Inr (l_calls L))"

definition tokens :: "(string \<Rightarrow> string option) \<Rightarrow> string \<Rightarrow> error + parser" where
  "tokens decode chunk =
     (case lex chunk of Inl e \<Rightarrow> Inl e | Inr cs \<Rightarrow> parser_run decode cs Parser_onReset)"

definition parse :: "(string \<Rightarrow> string option) \<Rightarrow> string \<Rightarrow> error + handler" where
  "parse decode chunk =
     (case tokens decode chunk of Inl e \<Rightarrow> Inl e
      | Inr p \<Rightarrow> handler_run (calls p) Handler_onReset)"

section \<open>Traversal\<close>

text \<open>
  The two generators read \<^verbatim>\<open>children\<close> and \<^verbatim>\<open>type\<close> of the nodes of a finished tree.
  They are modelled on the handler's store; the nodes a generator yields are listed in
  the order it yields them. The option \<^verbatim>\<open>last\<close> is \<open>lastLevel\<close> here
  (\<^verbatim>\<open>Infinity\<close> is \<open>\<infinity>\<close>).
\<close>

record options =
  skip :: nat
  lastLevel :: enat
  inclusive :: bool
  leaf :: bool

definition defaults :: options where
  "defaults = \<lparr>skip = 0, lastLevel = \<infinity>, inclusive = False, leaf = False\<rparr>"

text \<open>
  The test of the retention stage, the same text in both generators, without its first
  conjunct on the level:
  \<^verbatim>\<open>children?.length && (inclusive || children.length !== 1 || children[0].type !== 'text')\<close>.
\<close>

definition internal :: "node list \<Rightarrow> options \<Rightarrow> nat \<Rightarrow> bool" where
  "internal S opts nd =
     (let cs = children (S ! nd)
      in cs \<noteq> [] \<and> (inclusive opts \<or> length cs \<noteq> 1 \<or> n_type (S ! (cs ! 0)) \<noteq> Data_TEXT))"

text \<open>
  The loop of \<^verbatim>\<open>posterity\<close>. The working stack holds pairs of an ancestor and the
  index of its next child, the top last. \<^verbatim>\<open>branch[index]\<close> is \<^verbatim>\<open>undefined\<close> past the
  end of \<^verbatim>\<open>branch\<close>, and reading its \<^verbatim>\<open>children\<close> raises.
\<close>

partial_function (option) posterity_loop ::
    "node list \<Rightarrow> options \<Rightarrow> (nat \<times> nat) list \<Rightarrow> nat \<Rightarrow> nat list \<Rightarrow> (error + nat list) option" where
  "posterity_loop S opts stk level out =
     (if stk = [] then Some (Inr out)
      else
        let ancestor = fst (last stk);
            idx = snd (last stk);
            branch = children (S ! ancestor);
            stk1 = butlast stk @ [(ancestor, idx + 1)];
            released = (idx + 1 = length branch);
            stk2 = (if released then butlast stk1 else stk1);
            nxt = (if released then length stk2 else 0)
        in if idx \<ge> length branch then Some (Inl TypeError)
           else
             let nd = branch ! idx
             in if enat level < lastLevel opts \<and> internal S opts nd then
                  (if leaf opts then posterity_loop S opts (stk2 @ [(nd, 0)]) (level + 1) out
                   else posterity_loop S opts (stk2 @ [(nd, 0)])
                          (if nxt \<noteq> 0 then nxt else level + 1)
                          (if level + 1 > skip opts then out @ [nd] else out))
                else posterity_loop S opts stk2
                       (if nxt \<noteq> 0 then nxt else level)
                       (if level > skip opts then out @ [nd] else out))"

declare posterity_loop.simps [code]

definition posterity :: "node list \<Rightarrow> nat \<Rightarrow> options \<Rightarrow> (error + nat list) option" where
  "posterity S this opts =
     (if lastLevel opts = 0 then Some (Inr []) else posterity_loop S opts [(this, 0)] 1 [])"

text \<open>
  One round of the inner loop of \<^verbatim>\<open>descendants\<close>, on the branch node \<open>nd\<close>: the
  pair is the queue of retained nodes and the nodes yielded so far.
\<close>

definition visit :: "node list \<Rightarrow> options \<Rightarrow> bool \<Rightarrow> bool \<Rightarrow> nat \<Rightarrow> nat list \<times> nat list \<Rightarrow> nat list \<times> nat list" where
  "visit S opts retain submit nd acc =
     (if retain \<and> internal S opts nd then
        (if leaf opts then (fst acc @ [nd], snd acc)
         else (fst acc @ [nd], if submit then snd acc @ [nd] else snd acc))
      else (fst acc, if submit then snd acc @ [nd] else snd acc))"

partial_function (option) descendants_loop ::
    "node list \<Rightarrow> options \<Rightarrow> nat list \<Rightarrow> nat \<Rightarrow> nat list \<Rightarrow> nat list option" where
  "descendants_loop S opts queue level out =
     (if queue = [] then Some out
      else
        let ceiling = queue;
            retain = (enat level < lastLevel opts);
            submit = (level > skip opts);
            acc = fold (\<lambda>c a. fold (visit S opts retain submit) (children (S ! c)) a)
                    ceiling ([], out)
        in descendants_loop S opts (fst acc) (level + 1) (snd acc))"

declare descendants_loop.simps [code]

definition descendants :: "node list \<Rightarrow> nat \<Rightarrow> options \<Rightarrow> nat list option" where
  "descendants S this opts =
     (if lastLevel opts = 0 then Some [] else descendants_loop S opts [this] 1 [])"

section \<open>Notions of the specification\<close>

text \<open>
  The depth-first flattening of the children sequences: \<open>preorder C js xs\<close> says that
  \<open>xs\<close> lists, each parent before its children and the children in their order, the
  nodes of the trees rooted at \<open>js\<close>, where \<open>C ! i\<close> is the children sequence of
  node \<open>i\<close>.
\<close>

inductive preorder :: "nat list list \<Rightarrow> nat list \<Rightarrow> nat list \<Rightarrow> bool" for C where
  preorder_Nil: "preorder C [] []"
| preorder_Cons: "i < length C \<Longrightarrow> preorder C (C ! i) xs \<Longrightarrow> preorder C js ys
                  \<Longrightarrow> preorder C (i # js) (i # xs @ ys)"

text \<open>The walk along \<^verbatim>\<open>next\<close> from a node to the node that has no next one.\<close>

inductive chain :: "node list \<Rightarrow> nat \<Rightarrow> nat list \<Rightarrow> bool" for S where
  chain_end: "i < length S \<Longrightarrow> n_next (S ! i) = None \<Longrightarrow> chain S i [i]"
| chain_step: "i < length S \<Longrightarrow> n_next (S ! i) = Some j \<Longrightarrow> chain S j xs
               \<Longrightarrow> chain S i (i # xs)"

text \<open>
  The number of tags a sequence of handler calls leaves open, starting from \<open>d\<close> open
  tags; \<open>None\<close> when it closes a tag that is not open.
\<close>

fun opens :: "handler_call list \<Rightarrow> nat \<Rightarrow> nat option" where
  "opens [] d = Some d"
| "opens (OnStartTag nm as selfClosing # cs) d = opens cs (if selfClosing then d else d + 1)"
| "opens (OnEndTag explicit # cs) d = (if d = 0 then None else opens cs (d - 1))"
| "opens (c # cs) d = opens cs d"

section \<open>Parser: the loops in closed form\<close>

lemma lastIndexOf_absent: "x \<notin> set xs \<Longrightarrow> lastIndexOf xs x = -1"
  by (induction xs) auto

lemma lastIndexOf_ge: "lastIndexOf xs x \<ge> -1"
  by (induction xs) (auto simp: Let_def)

lemma lastIndexOf_nearest:
  "x \<notin> set upper \<Longrightarrow> lastIndexOf (lower @ x # upper) x = int (length lower)"
  by (induction lower) (auto simp: Let_def lastIndexOf_absent)

lemma endTagLoop_eq:
  "endTagLoop d p =
     p\<lparr>calls := calls p @ replicate d (OnEndTag False) @ [OnEndTag True],
       stack := take (length (stack p) - Suc d) (stack p)\<rparr>"
proof (induction d arbitrary: p)
  case 0
  show ?case by (simp add: emit_def pop_def butlast_conv_take)
next
  case (Suc d)
  show ?case
    by (simp add: Suc emit_def pop_def butlast_conv_take replicate_app_Cons_same min_def)
qed

lemma closeAll_eq:
  "closeAll p =
     p\<lparr>calls := calls p @ replicate (length (stack p)) (OnEndTag False), stack := []\<rparr>"
proof (induction "length (stack p)" arbitrary: p)
  case 0
  then show ?case by (subst closeAll.simps) simp
next
  case (Suc n)
  then have ne: "stack p \<noteq> []" by auto
  have len: "length (stack (pop (emit (OnEndTag False) p))) = n"
    using Suc(2) by (simp add: pop_def emit_def)
  show ?case
    using ne Suc(1) [OF len [symmetric]] Suc(2) [symmetric]
    by (subst closeAll.simps) (simp add: pop_def emit_def replicate_app_Cons_same)
qed

lemma closeWhile_eq:
  "closeWhile close p =
     p\<lparr>calls := calls p @
         replicate (length (takeWhile (has close) (rev (stack p)))) (OnEndTag False),
       stack := rev (dropWhile (has close) (rev (stack p)))\<rparr>"
proof (induction "length (stack p)" arbitrary: p)
  case 0
  then show ?case by (subst closeWhile.simps) simp
next
  case (Suc n)
  then obtain xs x where sp: "stack p = xs @ [x]"
    by (metis length_Suc_conv_rev)
  show ?case
  proof (cases "has close x")
    case False
    then show ?thesis using sp by (subst closeWhile.simps) simp
  next
    case True
    have len: "n = length (stack (pop (emit (OnEndTag False) p)))"
      using Suc(2) sp by (simp add: pop_def emit_def)
    show ?thesis
      using True sp Suc(1) [OF len]
      by (subst closeWhile.simps) (simp add: pop_def emit_def replicate_app_Cons_same)
  qed
qed

section \<open>End tags\<close>

text \<open>
  C1. An end tag whose name is not in the void-element set: when no entry of the stack
  of open tag names has that name, the parser is left as it was (nothing is closed, the
  stack is unchanged); when the nearest entry with that name, counted from the top, has
  \<open>length upper\<close> entries above it, the handler receives \<open>length upper\<close> closes flagged
  implicit followed by one close flagged explicit, and those \<open>length upper + 1\<close> entries
  are gone from the stack.
\<close>

theorem end_tag_closes_to_nearest_match:
  assumes "buffer p = Some b" and "slice b start fin = name" and "name \<notin> set emptyElements"
  shows "(Some name \<notin> set (stack p) \<longrightarrow> onEndTagName start fin p = Inr p) \<and>
         (\<forall>lower upper. stack p = lower @ Some name # upper \<and> Some name \<notin> set upper \<longrightarrow>
            onEndTagName start fin p =
              Inr (p\<lparr>calls := calls p @ replicate (length upper) (OnEndTag False)
                                 @ [OnEndTag True],
                     stack := lower\<rparr>))"
proof (intro conjI impI allI)
  assume "Some name \<notin> set (stack p)"
  then show "onEndTagName start fin p = Inr p"
    using assms by (simp add: onEndTagName_def span_def lastIndexOf_absent)
next
  fix lower upper
  assume h: "stack p = lower @ Some name # upper \<and> Some name \<notin> set upper"
  then have li: "lastIndexOf (stack p) (Some name) = int (length lower)"
    by (simp add: lastIndexOf_nearest)
  show "onEndTagName start fin p =
          Inr (p\<lparr>calls := calls p @ replicate (length upper) (OnEndTag False) @ [OnEndTag True],
                 stack := lower\<rparr>)"
    using assms h li by (simp add: onEndTagName_def span_def Let_def endTagLoop_eq)
qed

theorem end_tag_closes_to_nearest_match_witness:
  "(let p = Parser_onReset\<lparr>buffer := Some ''</div>'', stack := [Some ''div'', Some ''span'']\<rparr>
    in buffer p = Some ''</div>'' \<and> slice ''</div>'' 2 5 = ''div''
       \<and> ''div'' \<notin> set emptyElements
       \<and> stack p = [] @ Some ''div'' # [Some ''span''] \<and> Some ''div'' \<notin> set [Some ''span'']
       \<and> onEndTagName 2 5 p = Inr (p\<lparr>calls := [OnEndTag False, OnEndTag True], stack := []\<rparr>))
   \<and> (let p = Parser_onReset\<lparr>buffer := Some ''</b>'', stack := [Some ''div'']\<rparr>
      in buffer p = Some ''</b>'' \<and> slice ''</b>'' 2 3 = ''b'' \<and> ''b'' \<notin> set emptyElements
         \<and> Some ''b'' \<notin> set (stack p) \<and> onEndTagName 2 3 p = Inr p)"
proof -
  let ?p = "Parser_onReset\<lparr>buffer := Some ''</div>'', stack := [Some ''div'', Some ''span'']\<rparr>"
  let ?q = "Parser_onReset\<lparr>buffer := Some ''</b>'', stack := [Some ''div'']\<rparr>"
  have p1: "buffer ?p = Some ''</div>''" by simp
  have p2: "slice ''</div>'' 2 5 = ''div''" by (simp add: slice_def)
  have p3: "''div'' \<notin> set emptyElements" by (simp add: emptyElements_def)
  have q1: "buffer ?q = Some ''</b>''" by simp
  have q2: "slice ''</b>'' 2 3 = ''b''" by (simp add: slice_def)
  have q3: "''b'' \<notin> set emptyElements" by (simp add: emptyElements_def)
  have a: "onEndTagName 2 5 ?p =
             Inr (?p\<lparr>calls := calls ?p @ replicate (length [Some ''span'']) (OnEndTag False)
                                  @ [OnEndTag True],
                    stack := []\<rparr>)"
    by (rule end_tag_closes_to_nearest_match
          [OF p1 p2 p3, THEN conjunct2, rule_format, of "[]" "[Some ''span'']"]) simp
  have b: "onEndTagName 2 3 ?q = Inr ?q"
    by (rule end_tag_closes_to_nearest_match [OF q1 q2 q3, THEN conjunct1, rule_format]) simp
  show ?thesis
    using a b p2 p3 q2 q3 by (simp add: Parser_onReset_def)
qed

end
